theory Spec2Isabelle
  imports Complex_Main "HOL-Library.Char_ord" "HOL-Library.List_Lexorder"
begin

section \<open>Python and pandas primitives used by the pipelines\<close>

text \<open>
  A Python \<open>str\<close> is modelled as a \<open>string\<close>, read as ASCII text: \<open>lower\<close>, \<open>strip\<close> and
  \<open>len\<close> below are the ASCII behaviour of the Python methods, and characters above 127 are
  left alone. Strings are ordered lexicographically by character code, which is the order of
  Python's \<open>sorted\<close> on \<open>str\<close> and of SQLite's default (binary) text collation.
\<close>

definition digit_char :: "nat \<Rightarrow> char" where
  "digit_char d = ''0123456789abcdef'' ! d"

text \<open>\<open>str(n)\<close> for a non-negative integer: its decimal digits.\<close>

fun digits_of_nat :: "nat \<Rightarrow> string" where
  "digits_of_nat n =
     (if n < 10 then [digit_char n] else digits_of_nat (n div 10) @ [digit_char (n mod 10)])"

declare digits_of_nat.simps [simp del]

definition str_int :: "int \<Rightarrow> string" where
  "str_int i = (if i < 0 then ''-'' @ digits_of_nat (nat (- i)) else digits_of_nat (nat i))"

text \<open>
  \<open>str.isspace\<close> on ASCII: tab, line feed, vertical tab, form feed, carriage return, the four
  separators \<open>0x1c\<close> to \<open>0x1f\<close>, and the space.
\<close>

definition py_isspace :: "char \<Rightarrow> bool" where
  "py_isspace c = (let n = (of_char c :: nat) in (9 \<le> n \<and> n \<le> 13) \<or> (28 \<le> n \<and> n \<le> 32))"

definition py_strip :: "string \<Rightarrow> string" where
  "py_strip s = rev (dropWhile py_isspace (rev (dropWhile py_isspace s)))"

definition lower_char :: "char \<Rightarrow> char" where
  "lower_char c =
     (case map_of (zip ''ABCDEFGHIJKLMNOPQRSTUVWXYZ'' ''abcdefghijklmnopqrstuvwxyz'') c of
        Some l \<Rightarrow> l
      | None \<Rightarrow> c)"

definition py_lower :: "string \<Rightarrow> string" where
  "py_lower s = map lower_char s"

text \<open>\<open>sep.join(xs)\<close>.\<close>

fun join :: "string \<Rightarrow> string list \<Rightarrow> string" where
  "join sep [] = []"
| "join sep [x] = x"
| "join sep (x # y # ys) = x @ sep @ join sep (y # ys)"

text \<open>
  \<open>DataFrame.drop_duplicates()\<close> keeps the first occurrence of every row, in order;
  with \<open>subset=\<close> the rows are compared on the key columns only.
\<close>

fun drop_duplicates_subset :: "('a \<Rightarrow> 'k) \<Rightarrow> 'a list \<Rightarrow> 'a list" where
  "drop_duplicates_subset key [] = []"
| "drop_duplicates_subset key (x # xs) =
     x # drop_duplicates_subset key (filter (\<lambda>y. key y \<noteq> key x) xs)"

definition drop_duplicates :: "'a list \<Rightarrow> 'a list" where
  "drop_duplicates xs = drop_duplicates_subset (\<lambda>x. x) xs"

text \<open>
  \<open>Series.astype(str)\<close> on a column read with \<open>dtype=str\<close>: a missing cell (\<open>NaN\<close>, here
  \<open>None\<close>) becomes the text \<open>nan\<close>.
\<close>

definition astype_str :: "string option \<Rightarrow> string" where
  "astype_str c = (case c of None \<Rightarrow> ''nan'' | Some s \<Rightarrow> s)"


section \<open>Decoded JSON values\<close>

text \<open>
  The value \<open>json.load\<close> returns, without floating-point numbers. A \<open>JDict\<close> lists the
  items of the dictionary in insertion order; its keys are distinct.
\<close>

datatype json =
    JNull
  | JBool bool
  | JInt int
  | JStr string
  | JList "json list"
  | JDict "(string \<times> json) list"

text \<open>Truth value of an object, as \<open>not d\<close> and \<open>x or y\<close> test it.\<close>

fun py_truthy :: "json \<Rightarrow> bool" where
  "py_truthy JNull = False"
| "py_truthy (JBool b) = b"
| "py_truthy (JInt i) = (i \<noteq> 0)"
| "py_truthy (JStr s) = (s \<noteq> [])"
| "py_truthy (JList xs) = (xs \<noteq> [])"
| "py_truthy (JDict kvs) = (kvs \<noteq> [])"

text \<open>\<open>len(x)\<close>; \<open>None\<close> where Python raises \<open>TypeError\<close>.\<close>

fun py_len :: "json \<Rightarrow> nat option" where
  "py_len (JStr s) = Some (length s)"
| "py_len (JList xs) = Some (length xs)"
| "py_len (JDict kvs) = Some (length kvs)"
| "py_len _ = None"

definition hex2 :: "nat \<Rightarrow> string" where
  "hex2 n = [digit_char (n div 16), digit_char (n mod 16)]"

text \<open>\<open>repr\<close> of a \<open>str\<close>: quoted with \<open>'\<close>, or with \<open>"\<close> when the text has a \<open>'\<close> and no \<open>"\<close>.\<close>

definition repr_char :: "char \<Rightarrow> char \<Rightarrow> string" where
  "repr_char quote c =
     (let n = (of_char c :: nat) in
      if c = quote \<or> c = CHR 0x5C then [CHR 0x5C, c]
      else if c = CHR 0x09 then [CHR 0x5C, CHR ''t'']
      else if c = CHR 0x0A then [CHR 0x5C, CHR ''n'']
      else if c = CHR 0x0D then [CHR 0x5C, CHR ''r'']
      else if n < 32 \<or> n = 127 then [CHR 0x5C, CHR ''x''] @ hex2 n
      else [c])"

definition repr_str :: "string \<Rightarrow> string" where
  "repr_str s =
     (let quote = (if CHR 0x27 \<in> set s \<and> CHR 0x22 \<notin> set s then CHR 0x22 else CHR 0x27)
      in [quote] @ concat (map (repr_char quote) s) @ [quote])"

fun py_repr :: "json \<Rightarrow> string" where
  "py_repr JNull = ''None''"
| "py_repr (JBool b) = (if b then ''True'' else ''False'')"
| "py_repr (JInt i) = str_int i"
| "py_repr (JStr s) = repr_str s"
| "py_repr (JList xs) = ''['' @ join '', '' (map py_repr xs) @ '']''"
| "py_repr (JDict kvs) =
     ''{'' @ join '', '' (map (\<lambda>(k, v). repr_str k @ '': '' @ py_repr v) kvs) @ ''}''"

text \<open>\<open>str(x)\<close>: the text itself for a \<open>str\<close>, the \<open>repr\<close> otherwise.\<close>

definition py_str :: "json \<Rightarrow> string" where
  "py_str x = (case x of JStr s \<Rightarrow> s | _ \<Rightarrow> py_repr x)"

text \<open>
  \<open>json.dumps(d, ensure_ascii=False, separators=(",", ":"))\<close>: only the quote, the backslash
  and the control characters below \<open>0x20\<close> are escaped.
\<close>

definition json_escape_char :: "char \<Rightarrow> string" where
  "json_escape_char c =
     (let n = (of_char c :: nat) in
      if c = CHR 0x22 then [CHR 0x5C, CHR 0x22]
      else if c = CHR 0x5C then [CHR 0x5C, CHR 0x5C]
      else if c = CHR 0x08 then [CHR 0x5C, CHR ''b'']
      else if c = CHR 0x0C then [CHR 0x5C, CHR ''f'']
      else if c = CHR 0x0A then [CHR 0x5C, CHR ''n'']
      else if c = CHR 0x0D then [CHR 0x5C, CHR ''r'']
      else if c = CHR 0x09 then [CHR 0x5C, CHR ''t'']
      else if n < 32 then [CHR 0x5C, CHR ''u'', CHR ''0'', CHR ''0''] @ hex2 n
      else [c])"

definition json_quote :: "string \<Rightarrow> string" where
  "json_quote s = [CHR 0x22] @ concat (map json_escape_char s) @ [CHR 0x22]"

fun json_dumps :: "json \<Rightarrow> string" where
  "json_dumps JNull = ''null''"
| "json_dumps (JBool b) = (if b then ''true'' else ''false'')"
| "json_dumps (JInt i) = str_int i"
| "json_dumps (JStr s) = json_quote s"
| "json_dumps (JList xs) = ''['' @ join '','' (map json_dumps xs) @ '']''"
| "json_dumps (JDict kvs) =
     ''{'' @ join '','' (map (\<lambda>(k, v). json_quote k @ '':'' @ json_dumps v) kvs) @ ''}''"


section \<open>Hetionet extraction: \<open>hetionet_extract_to_csv.py\<close>\<close>

subsection \<open>\<open>evidence_string\<close>\<close>

text \<open>
  The argument is \<open>e.get("data")\<close>: \<open>JNull\<close> when the edge has no \<open>data\<close>. The branches are
  those of the source, in its order.
\<close>

definition evidence_string :: "json \<Rightarrow> string" where
  "evidence_string d =
     (if \<not> py_truthy d then ''''
      else case d of
        JDict kvs \<Rightarrow>
          (case map_of kvs ''source'' of
             Some (JStr s) \<Rightarrow> s
           | _ \<Rightarrow>
             (case map_of kvs ''sources'' of
                Some s \<Rightarrow>
                  (case s of
                     JList xs \<Rightarrow> join '';'' (sort (map py_str xs))
                   | _ \<Rightarrow> py_str s)
              | None \<Rightarrow>
                (case map_of kvs ''pmids'' of
                   Some p \<Rightarrow>
                     (case py_len p of
                        Some n \<Rightarrow> ''pmids:'' @ digits_of_nat n
                      | None \<Rightarrow> ''pmids'')
                 | None \<Rightarrow> json_dumps d)))
      | _ \<Rightarrow> py_str d)"

subsection \<open>The edge loop\<close>

text \<open>
  An edge of the decoded document. \<open>kind\<close> and \<open>direction\<close> are \<open>e.get(...)\<close>: a text, or
  \<open>None\<close> when the key is absent or null. \<open>source_id\<close> and \<open>target_id\<close> are the
  (kind, identifier) pairs.
\<close>

record edge =
  kind :: "string option"
  direction :: "string option"
  source_id :: "json \<times> json"
  target_id :: "json \<times> json"
  data :: json

text \<open>\<open>x or default\<close> on an optional string: the default for \<open>None\<close> and for the empty text.\<close>

definition or_default :: "string option \<Rightarrow> string \<Rightarrow> string" where
  "or_default x dflt = (case x of None \<Rightarrow> dflt | Some s \<Rightarrow> if s = [] then dflt else s)"

definition ekind :: "edge \<Rightarrow> string" where
  "ekind e = py_strip (py_lower (or_default (kind e) ''''))"

definition direc :: "edge \<Rightarrow> string" where
  "direc e = py_strip (py_lower (or_default (direction e) ''both''))"

definition src_kind :: "edge \<Rightarrow> string" where
  "src_kind e = py_str (fst (source_id e))"

definition tgt_kind :: "edge \<Rightarrow> string" where
  "tgt_kind e = py_str (fst (target_id e))"

definition src_id :: "edge \<Rightarrow> json" where
  "src_id e = snd (source_id e)"

definition tgt_id :: "edge \<Rightarrow> json" where
  "tgt_id e = snd (target_id e)"

definition ev :: "edge \<Rightarrow> string" where
  "ev e = evidence_string (data e)"

text \<open>
  The four row lists the loop appends to. A row is the triple of its three columns, in the
  order of the source's dictionary: (\<open>drugbank_id\<close>, \<open>entrez_id\<close>, \<open>evidence\<close>) for
  \<open>E_DRUG_TARGETS\<close>, (\<open>drugbank_id\<close>, \<open>doid\<close>, \<open>evidence\<close>) for \<open>E_DRUG_TREATS\<close>,
  (\<open>entrez_id\<close>, \<open>doid\<close>, \<open>evidence\<close>) for \<open>E_GENE_DISEASE\<close> and
  (\<open>drugbank_id\<close>, \<open>umls_cui\<close>, \<open>evidence\<close>) for \<open>E_DRUG_SE\<close>.
\<close>

type_synonym edge_row = "string \<times> string \<times> string"

record edge_lists =
  E_DRUG_TARGETS :: "edge_row list"
  E_DRUG_TREATS :: "edge_row list"
  E_GENE_DISEASE :: "edge_row list"
  E_DRUG_SE :: "edge_row list"

text \<open>One iteration of \<open>for e in edges\<close>.\<close>

definition edge_step :: "edge \<Rightarrow> edge_lists \<Rightarrow> edge_lists" where
  "edge_step e L =
     (if ekind e = ''binds'' \<and> direc e \<in> {''forward'', ''both''} then
        (if src_kind e = ''Compound'' \<and> tgt_kind e = ''Gene'' then
           L\<lparr>E_DRUG_TARGETS := E_DRUG_TARGETS L @ [(py_str (src_id e), py_str (tgt_id e), ev e)]\<rparr>
         else if direc e = ''both'' \<and> src_kind e = ''Gene'' \<and> tgt_kind e = ''Compound'' then
           L\<lparr>E_DRUG_TARGETS := E_DRUG_TARGETS L @ [(py_str (tgt_id e), py_str (src_id e), ev e)]\<rparr>
         else L)
      else if ekind e = ''treats'' \<and> direc e \<in> {''forward'', ''both''} then
        (if src_kind e = ''Compound'' \<and> tgt_kind e = ''Disease'' then
           L\<lparr>E_DRUG_TREATS := E_DRUG_TREATS L @ [(py_str (src_id e), py_str (tgt_id e), ev e)]\<rparr>
         else if direc e = ''both'' \<and> src_kind e = ''Disease'' \<and> tgt_kind e = ''Compound'' then
           L\<lparr>E_DRUG_TREATS := E_DRUG_TREATS L @ [(py_str (tgt_id e), py_str (src_id e), ev e)]\<rparr>
         else L)
      else if ekind e = ''associates'' \<and> direc e \<in> {''both'', ''forward''} then
        (if src_kind e = ''Gene'' \<and> tgt_kind e = ''Disease'' then
           L\<lparr>E_GENE_DISEASE := E_GENE_DISEASE L @ [(py_str (src_id e), py_str (tgt_id e), ev e)]\<rparr>
         else if src_kind e = ''Disease'' \<and> tgt_kind e = ''Gene'' then
           L\<lparr>E_GENE_DISEASE := E_GENE_DISEASE L @ [(py_str (tgt_id e), py_str (src_id e), ev e)]\<rparr>
         else L)
      else if ekind e = ''causes'' \<and> direc e \<in> {''forward'', ''both''} then
        (if src_kind e = ''Compound'' \<and> tgt_kind e = ''Side Effect'' then
           L\<lparr>E_DRUG_SE := E_DRUG_SE L @ [(py_str (src_id e), py_str (tgt_id e), ev e)]\<rparr>
         else if direc e = ''both'' \<and> src_kind e = ''Side Effect'' \<and> tgt_kind e = ''Compound'' then
           L\<lparr>E_DRUG_SE := E_DRUG_SE L @ [(py_str (tgt_id e), py_str (src_id e), ev e)]\<rparr>
         else L)
      else L)"

definition no_edges :: edge_lists where
  "no_edges = \<lparr>E_DRUG_TARGETS = [], E_DRUG_TREATS = [], E_GENE_DISEASE = [], E_DRUG_SE = []\<rparr>"

definition edge_loop :: "edge list \<Rightarrow> edge_lists" where
  "edge_loop edges = fold edge_step edges no_edges"

text \<open>
  The four edge tables as written: each list through \<open>drop_duplicates()\<close>, in the order
  \<open>edges_drug_targets.csv\<close>, \<open>edges_drug_treats.csv\<close>, \<open>edges_gene_disease.csv\<close>,
  \<open>edges_drug_sideeffect.csv\<close>.
\<close>

definition edge_csvs :: "edge list \<Rightarrow> edge_row list \<times> edge_row list \<times> edge_row list \<times> edge_row list" where
  "edge_csvs edges =
     (let L = edge_loop edges in
      (drop_duplicates (E_DRUG_TARGETS L), drop_duplicates (E_DRUG_TREATS L),
       drop_duplicates (E_GENE_DISEASE L), drop_duplicates (E_DRUG_SE L)))"

text \<open>The record with its two endpoints exchanged, everything else kept.\<close>

definition swap_endpoints :: "edge \<Rightarrow> edge" where
  "swap_endpoints e = e\<lparr>source_id := target_id e, target_id := source_id e\<rparr>"


section \<open>ChEMBL extraction: \<open>extract_chembl_sqlite_cli.py\<close>\<close>

subsection \<open>The database\<close>

text \<open>
  A table is the list of its rows and a cell is an option, \<open>None\<close> for SQL \<open>NULL\<close>. A row
  holds the columns the queries name; a column that a release of the schema lacks is not in
  the column set of its table and is not read. The order in which a query returns its rows is
  not fixed by SQL; the model returns them in nested-loop order.
\<close>

record md_row =
  md_molregno :: "int option"
  md_chembl_id :: "string option"
  md_pref_name :: "string option"
  md_max_phase :: "rat option"

record ms_row =
  ms_molregno :: "int option"
  ms_synonyms :: "string option"

record dm_row =
  dm_tid :: "int option"
  dm_target_chembl_id :: "string option"
  dm_molregno :: "int option"
  dm_molecule_chembl_id :: "string option"
  dm_mechanism_of_action :: "string option"
  dm_action_type :: "string option"

record td_row =
  td_tid :: "int option"
  td_chembl_id :: "string option"
  td_target_chembl_id :: "string option"
  td_pref_name :: "string option"

record tc_row =
  tc_tid :: "int option"
  tc_component_id :: "int option"

record cs_row =
  cs_component_id :: "int option"
  cs_accession :: "string option"

text \<open>
  \<open>td_cols\<close>, \<open>dm_cols\<close> and \<open>md_cols\<close> are what \<open>get_cols\<close> returns for the three tables;
  \<open>molecule_synonyms\<close> is \<open>None\<close> when \<open>table_exists\<close> is false.
\<close>

record chembl_db =
  td_cols :: "string set"
  dm_cols :: "string set"
  md_cols :: "string set"
  molecule_dictionary :: "md_row list"
  molecule_synonyms :: "ms_row list option"
  drug_mechanism :: "dm_row list"
  target_dictionary :: "td_row list"
  target_components :: "tc_row list"
  component_sequences :: "cs_row list"

datatype phase_choice = PhaseAll | Phase4 | Phase1to4

record args =
  phase :: phase_choice
  fill_synonyms :: bool

datatype error = RuntimeError string

subsection \<open>SQL operators\<close>

text \<open>\<open>a = b\<close> in a join or a filter: true only for two equal non-null values.\<close>

definition sql_eq :: "'a option \<Rightarrow> 'a option \<Rightarrow> bool" where
  "sql_eq a b = (case a of None \<Rightarrow> False | Some x \<Rightarrow> (case b of None \<Rightarrow> False | Some y \<Rightarrow> x = y))"

fun COALESCE :: "'a option list \<Rightarrow> 'a option" where
  "COALESCE [] = None"
| "COALESCE (None # xs) = COALESCE xs"
| "COALESCE (Some x # xs) = Some x"

text \<open>The aggregate \<open>MIN\<close>: the least of the non-null values of the group, \<open>NULL\<close> if there is none.\<close>

definition sql_min :: "('a::linorder) option list \<Rightarrow> 'a option" where
  "sql_min vs = (case [v. Some v \<leftarrow> vs] of [] \<Rightarrow> None | x # xs \<Rightarrow> Some (fold min xs x))"

subsection \<open>Schema introspection\<close>

definition dm_td_join :: "chembl_db \<Rightarrow> error + (td_row \<Rightarrow> dm_row \<Rightarrow> bool)" where
  "dm_td_join db =
     (if ''tid'' \<in> dm_cols db \<and> ''tid'' \<in> td_cols db then
        Inr (\<lambda>td dm. sql_eq (td_tid td) (dm_tid dm))
      else if ''target_chembl_id'' \<in> dm_cols db
          \<and> (''chembl_id'' \<in> td_cols db \<or> ''target_chembl_id'' \<in> td_cols db) then
        (let td_id = (if ''chembl_id'' \<in> td_cols db then td_chembl_id else td_target_chembl_id)
         in Inr (\<lambda>td dm. sql_eq (td_id td) (dm_target_chembl_id dm)))
      else Inl (RuntimeError ''Cannot determine join between drug_mechanism and target_dictionary''))"

definition dm_md_join :: "chembl_db \<Rightarrow> error + (md_row \<Rightarrow> dm_row \<Rightarrow> bool)" where
  "dm_md_join db =
     (if ''molregno'' \<in> dm_cols db \<and> ''molregno'' \<in> md_cols db then
        Inr (\<lambda>md dm. sql_eq (md_molregno md) (dm_molregno dm))
      else if ''molecule_chembl_id'' \<in> dm_cols db \<and> ''chembl_id'' \<in> md_cols db then
        Inr (\<lambda>md dm. sql_eq (md_chembl_id md) (dm_molecule_chembl_id dm))
      else Inl (RuntimeError ''Cannot determine join between drug_mechanism and molecule_dictionary''))"

subsection \<open>Synonym helper table and the name expression\<close>

text \<open>
  \<open>q_syn\<close>: one row (\<open>molregno\<close>, \<open>syn\<close>) for every group of \<open>molecule_synonyms\<close> rows with the
  same \<open>molregno\<close>; its result is stored as the table \<open>_tmp_syn\<close>.
\<close>

definition q_syn :: "ms_row list \<Rightarrow> (int option \<times> string option) list" where
  "q_syn ms =
     map (\<lambda>g. (g, sql_min [ms_synonyms r. r \<leftarrow> ms, ms_molregno r = g]))
       (remdups (map ms_molregno ms))"

text \<open>The condition of line 71: synonyms are used when asked for and the table exists.\<close>

definition tmp_syn :: "args \<Rightarrow> chembl_db \<Rightarrow> (int option \<times> string option) list option" where
  "tmp_syn a db =
     (if fill_synonyms a then
        (case molecule_synonyms db of None \<Rightarrow> None | Some ms \<Rightarrow> Some (q_syn ms))
      else None)"

text \<open>
  \<open>syn_clause\<close>: the values of \<open>s.syn\<close> that the query sees beside one \<open>molecule_dictionary\<close>
  row. Without the clause there is no \<open>s\<close>; with \<open>LEFT JOIN _tmp_syn s ON s.molregno =
  md.molregno\<close> there is one value for every matching row of \<open>_tmp_syn\<close>, and a single \<open>NULL\<close>
  when no row matches.
\<close>

definition syn_clause :: "(int option \<times> string option) list option \<Rightarrow> md_row \<Rightarrow> string option list" where
  "syn_clause tmp md =
     (case tmp of
        None \<Rightarrow> [None]
      | Some rows \<Rightarrow>
          (case [syn. (molregno, syn) \<leftarrow> rows, sql_eq molregno (md_molregno md)] of
             [] \<Rightarrow> [None]
           | syns \<Rightarrow> syns))"

definition name_expr :: "(int option \<times> string option) list option \<Rightarrow> md_row \<Rightarrow> string option \<Rightarrow> string option" where
  "name_expr tmp md syn =
     (case tmp of
        None \<Rightarrow> COALESCE [md_pref_name md, md_chembl_id md]
      | Some rows \<Rightarrow> COALESCE [md_pref_name md, syn, md_chembl_id md])"

definition where_phase :: "phase_choice \<Rightarrow> md_row \<Rightarrow> bool" where
  "where_phase p md =
     (case p of
        PhaseAll \<Rightarrow> True
      | Phase4 \<Rightarrow> sql_eq (md_max_phase md) (Some 4)
      | Phase1to4 \<Rightarrow> (case md_max_phase md of None \<Rightarrow> False | Some x \<Rightarrow> 1 \<le> x \<and> x \<le> 4))"

subsection \<open>The three outputs\<close>

text \<open>Drug nodes: rows (\<open>chembl_id\<close>, \<open>name\<close>).\<close>

definition q_drugs :: "args \<Rightarrow> chembl_db \<Rightarrow> (string option \<times> string option) list" where
  "q_drugs a db =
     [(md_chembl_id md, name_expr (tmp_syn a db) md syn).
        md \<leftarrow> molecule_dictionary db,
        syn \<leftarrow> syn_clause (tmp_syn a db) md,
        md_chembl_id md \<noteq> None \<and> where_phase (phase a) md]"

definition drugs :: "args \<Rightarrow> chembl_db \<Rightarrow> (string option \<times> string option) list" where
  "drugs a db = drop_duplicates (q_drugs a db)"

text \<open>Drug-target edges: rows (\<open>chembl_id\<close>, \<open>uniprot\<close>, \<open>mechanism\<close>, \<open>action_type\<close>).\<close>

type_synonym chembl_edge = "string option \<times> string option \<times> string option \<times> string option"

definition q_edges ::
  "args \<Rightarrow> chembl_db \<Rightarrow> (md_row \<Rightarrow> dm_row \<Rightarrow> bool) \<Rightarrow> (td_row \<Rightarrow> dm_row \<Rightarrow> bool) \<Rightarrow> chembl_edge list" where
  "q_edges a db md_join td_join =
     remdups
       [(md_chembl_id md, cs_accession cs, dm_mechanism_of_action dm, dm_action_type dm).
          dm \<leftarrow> drug_mechanism db,
          md \<leftarrow> molecule_dictionary db, md_join md dm,
          td \<leftarrow> target_dictionary db, td_join td dm,
          tc \<leftarrow> target_components db, sql_eq (tc_tid tc) (td_tid td),
          cs \<leftarrow> component_sequences db, sql_eq (cs_component_id cs) (tc_component_id tc),
          md_chembl_id md \<noteq> None \<and> cs_accession cs \<noteq> None \<and> where_phase (phase a) md]"

definition uniprot :: "chembl_edge \<Rightarrow> string option" where
  "uniprot r = fst (snd r)"

text \<open>The query inside \<open>merge\<close>: rows (\<open>uniprot\<close>, \<open>target_name\<close>).\<close>

definition q_target_names :: "chembl_db \<Rightarrow> (string option \<times> string option) list" where
  "q_target_names db =
     remdups
       [(cs_accession cs, td_pref_name td).
          td \<leftarrow> target_dictionary db,
          tc \<leftarrow> target_components db, sql_eq (tc_tid tc) (td_tid td),
          cs \<leftarrow> component_sequences db, sql_eq (cs_component_id cs) (tc_component_id tc)]"

text \<open>
  \<open>left.merge(right, on="uniprot", how="left")\<close> for a one-column left frame: every left
  key with each right row of the same key, or with a missing \<open>target_name\<close> when there is none.
\<close>

definition merge_left :: "'k list \<Rightarrow> ('k \<times> 'v option) list \<Rightarrow> ('k \<times> 'v option) list" where
  "merge_left left right =
     concat (map (\<lambda>k. case [r. r \<leftarrow> right, fst r = k] of [] \<Rightarrow> [(k, None)] | rs \<Rightarrow> rs) left)"

text \<open>\<open>fillna({"target_name": ""})\<close>.\<close>

definition fillna_target_name :: "(string option \<times> string option) \<Rightarrow> (string option \<times> string)" where
  "fillna_target_name r = (fst r, case snd r of None \<Rightarrow> [] | Some n \<Rightarrow> n)"

text \<open>Target nodes: rows (\<open>uniprot\<close>, \<open>target_name\<close>), built from the edges.\<close>

definition targets :: "chembl_db \<Rightarrow> chembl_edge list \<Rightarrow> (string option \<times> string) list" where
  "targets db edges =
     map fillna_target_name
       (merge_left (drop_duplicates (map uniprot edges)) (q_target_names db))"

text \<open>
  \<open>main\<close>: the three frames written to \<open>nodes_drug_chembl\<close>, \<open>edges_drug_targets_chembl\<close> and
  \<open>nodes_target_uniprot\<close>, or the \<open>RuntimeError\<close> of the schema introspection.
\<close>

definition chembl_main ::
  "args \<Rightarrow> chembl_db \<Rightarrow>
     error + ((string option \<times> string option) list \<times> chembl_edge list \<times> (string option \<times> string) list)" where
  "chembl_main a db =
     (case dm_td_join db of
        Inl err \<Rightarrow> Inl err
      | Inr td_join \<Rightarrow>
          (case dm_md_join db of
             Inl err \<Rightarrow> Inl err
           | Inr md_join \<Rightarrow>
               (let edges = drop_duplicates (q_edges a db md_join td_join)
                in Inr (drugs a db, edges, targets db edges))))"





section \<open>ChEMBL to DrugBank: \<open>map_chembl_to_drugbank_unichem_dump.py\<close>\<close>

text \<open>
  The two input tables as \<open>read_csv(..., dtype=str)\<close> returns them, a missing cell being
  \<open>None\<close>: \<open>PHASE4\<close> has the rows (\<open>chembl_id\<close>, \<open>name\<close>) of the drug node table, and
  \<open>UNICHEM_MAP\<close> the rows (\<open>chembl_id\<close>, \<open>drugbank_id\<close>) of the UniChem dump, whose header
  names are \<open>UNICHEM_MAP_columns\<close>.
\<close>

record unichem_input =
  PHASE4 :: "(string option \<times> string option) list"
  UNICHEM_MAP_columns :: "string set"
  UNICHEM_MAP :: "(string option \<times> string option) list"

datatype value_error = ValueError

text \<open>Step 1: the drug list, ids as stripped text, one row for every id.\<close>

definition df_drugs :: "unichem_input \<Rightarrow> (string \<times> string option) list" where
  "df_drugs inp =
     drop_duplicates_subset fst [(py_strip (astype_str c), n). (c, n) \<leftarrow> PHASE4 inp]"

text \<open>Step 2: the mapping, both columns as stripped text.\<close>

definition df_map :: "unichem_input \<Rightarrow> (string \<times> string) list" where
  "df_map inp = [(py_strip (astype_str c), py_strip (astype_str d)). (c, d) \<leftarrow> UNICHEM_MAP inp]"

text \<open>
  Step 3: the inner join on \<open>chembl_id\<close>, rows (\<open>chembl_id\<close>, \<open>name\<close>, \<open>drugbank_id\<close>), then
  \<open>drop_duplicates(subset=["chembl_id", "drugbank_id"])\<close>.
\<close>

definition merged :: "unichem_input \<Rightarrow> (string \<times> string option \<times> string) list" where
  "merged inp =
     drop_duplicates_subset (\<lambda>(c, n, d). (c, d))
       [(c, n, d). (c, n) \<leftarrow> df_drugs inp, (c', d) \<leftarrow> df_map inp, c' = c]"

text \<open>Step 4: the three id sets.\<close>

definition mapped_ids :: "unichem_input \<Rightarrow> string set" where
  "mapped_ids inp = set [c. (c, n, d) \<leftarrow> merged inp]"

definition all_ids :: "unichem_input \<Rightarrow> string set" where
  "all_ids inp = set [c. (c, n) \<leftarrow> df_drugs inp]"

definition missing_ids :: "unichem_input \<Rightarrow> string list" where
  "missing_ids inp = sorted_list_of_set (all_ids inp - mapped_ids inp)"

text \<open>
  \<open>main\<close>: the frame written to \<open>chembl_to_drugbank.csv\<close> and the column written to
  \<open>chembl_unmapped.csv\<close>, or the \<open>ValueError\<close> for a dump without the two column names.
\<close>

definition unichem_main ::
  "unichem_input \<Rightarrow> value_error + ((string \<times> string option \<times> string) list \<times> string list)" where
  "unichem_main inp =
     (if \<not> {''chembl_id'', ''drugbank_id''} \<subseteq> UNICHEM_MAP_columns inp then Inl ValueError
      else Inr (merged inp, missing_ids inp))"


section \<open>SIDER to ChEMBL: \<open>map_sider_stitch_to_chembl_via_pubchem.py\<close>\<close>

subsection \<open>The pattern \<open>CID0*([1-9]\d*|0)$\<close>\<close>








subsection \<open>\<open>extract_pubchem_cid\<close>\<close>


subsection \<open>Step 1 of \<open>main\<close>\<close>




section \<open>UniProt to Entrez: \<open>map_uniprot_to_entrez.py\<close>\<close>

text \<open>
  \<open>target_uniprots\<close>: the \<open>uniprot\<close> column of the target node table, stripped, without the
  missing cells.
\<close>

definition target_uniprots :: "string option list \<Rightarrow> string set" where
  "target_uniprots col = set [py_strip u. Some u \<leftarrow> col]"

text \<open>One iteration of \<open>for row in reader\<close>; a row is the list of its tab-separated fields.\<close>

definition mapping_step :: "string set \<Rightarrow> string list \<Rightarrow> (string \<times> string) list \<Rightarrow> (string \<times> string) list" where
  "mapping_step wanted row mapping =
     (if length row \<noteq> 3 then mapping
      else
        (case row of
           [uniprot_acc, mapping_type, val] \<Rightarrow>
             if mapping_type = ''GeneID'' \<and> uniprot_acc \<in> wanted
             then mapping @ [(uniprot_acc, val)]
             else mapping
         | _ \<Rightarrow> mapping))"

text \<open>\<open>main\<close>: the frame written to \<open>uniprot_to_entrez.csv\<close>, rows (\<open>uniprot\<close>, \<open>entrez_id\<close>).\<close>

definition uniprot_main :: "string option list \<Rightarrow> string list list \<Rightarrow> (string \<times> string) list" where
  "uniprot_main col rows =
     drop_duplicates (fold (mapping_step (target_uniprots col)) rows [])"


section \<open>Sample inputs\<close>

text \<open>
  A database with three phase-4 molecules: one whose preferred name is the empty text, one
  with two synonyms and no preferred name, one with neither.
\<close>

definition sample_args :: args where
  "sample_args = \<lparr>phase = Phase4, fill_synonyms = True\<rparr>"



text \<open>
  A database in which the protein \<open>P23219\<close> is a component of two targets, one without a
  preferred name and one whose preferred name is the empty text.
\<close>

definition two_targets_db :: chembl_db where
  "two_targets_db =
     \<lparr>td_cols = {''tid'', ''pref_name''}, dm_cols = {''tid'', ''molregno''},
      md_cols = {''molregno'', ''chembl_id'', ''pref_name'', ''max_phase''},
      molecule_dictionary =
        [\<lparr>md_molregno = Some 1, md_chembl_id = Some ''CHEMBL25'',
          md_pref_name = Some ''ASPIRIN'', md_max_phase = Some 4\<rparr>],
      molecule_synonyms = None,
      drug_mechanism =
        [\<lparr>dm_tid = Some 7, dm_target_chembl_id = None, dm_molregno = Some 1,
          dm_molecule_chembl_id = None, dm_mechanism_of_action = Some ''Cyclooxygenase inhibitor'',
          dm_action_type = Some ''INHIBITOR''\<rparr>],
      target_dictionary =
        [\<lparr>td_tid = Some 7, td_chembl_id = None, td_target_chembl_id = None, td_pref_name = None\<rparr>,
         \<lparr>td_tid = Some 8, td_chembl_id = None, td_target_chembl_id = None, td_pref_name = Some []\<rparr>],
      target_components =
        [\<lparr>tc_tid = Some 7, tc_component_id = Some 3\<rparr>,
         \<lparr>tc_tid = Some 8, tc_component_id = Some 3\<rparr>],
      component_sequences = [\<lparr>cs_component_id = Some 3, cs_accession = Some ''P23219''\<rparr>]\<rparr>"

definition sample_unichem :: unichem_input where
  "sample_unichem =
     \<lparr>PHASE4 = [(Some ''CHEMBL25 '', Some ''ASPIRIN''), (Some ''CHEMBL2'', None),
        (Some ''CHEMBL1'', None), (Some ''CHEMBL25'', Some ''ASPIRIN'')],
      UNICHEM_MAP_columns = {''chembl_id'', ''drugbank_id''},
      UNICHEM_MAP = [(Some ''CHEMBL25'', Some ''DB00945''), (Some ''CHEMBL9'', Some ''DB00001'')]\<rparr>"


section \<open>Verification\<close>

subsection \<open>Evaluation rules and facts about the primitives\<close>

lemma digits_of_nat_small: "n < 10 \<Longrightarrow> digits_of_nat n = [digit_char n]"
  by (subst digits_of_nat.simps) simp

lemma digits_of_nat_large:
  "\<not> n < 10 \<Longrightarrow> digits_of_nat n = digits_of_nat (n div 10) @ [digit_char (n mod 10)]"
  by (subst digits_of_nat.simps) simp

lemmas digits_eval = digits_of_nat_small digits_of_nat_large digit_char_def str_int_def

lemmas text_eval = py_strip_def py_lower_def lower_char_def py_isspace_def or_default_def

lemmas edge_eval =
  ekind_def direc_def src_kind_def tgt_kind_def src_id_def tgt_id_def ev_def py_str_def text_eval

lemma py_repr_example:
  "py_repr (JList [JStr ''a'', JInt (- 12), JNull, JDict [(''k'', JBool True)]])
     = ''['' @ [CHR 0x27] @ ''a'' @ [CHR 0x27] @ '', -12, None, {''
         @ [CHR 0x27] @ ''k'' @ [CHR 0x27] @ '': True}]''"
  by (simp add: digits_eval repr_str_def repr_char_def Let_def)

lemma json_dumps_example:
  "json_dumps (JDict [(''k'', JList [JStr ''a'', JInt 5]), (''z'', JNull)])
     = ''{'' @ [CHR 0x22] @ ''k'' @ [CHR 0x22] @ '':['' @ [CHR 0x22] @ ''a'' @ [CHR 0x22]
         @ '',5],'' @ [CHR 0x22] @ ''z'' @ [CHR 0x22] @ '':null}''"
  by (simp add: digits_eval json_quote_def json_escape_char_def Let_def)


lemma swap_endpoints_fields:
  "ekind (swap_endpoints e) = ekind e"
  "direc (swap_endpoints e) = direc e"
  "ev (swap_endpoints e) = ev e"
  "src_kind (swap_endpoints e) = tgt_kind e"
  "tgt_kind (swap_endpoints e) = src_kind e"
  "src_id (swap_endpoints e) = tgt_id e"
  "tgt_id (swap_endpoints e) = src_id e"
  by (simp_all add: swap_endpoints_def ekind_def direc_def ev_def src_kind_def tgt_kind_def
      src_id_def tgt_id_def)

lemma edge_loop_skip:
  assumes "\<And>L. edge_step e L = L"
  shows "edge_loop (es1 @ e # es2) = edge_loop (es1 @ es2)"
  by (simp add: edge_loop_def assms)

subsection \<open>Facts about \<open>drop_duplicates\<close> and the SQL operators\<close>

lemma drop_duplicates_subset_subset: "set (drop_duplicates_subset key xs) \<subseteq> set xs"
  by (induction key xs rule: drop_duplicates_subset.induct) auto

lemma drop_duplicates_subset_keys:
  "key ` set (drop_duplicates_subset key xs) = key ` set xs"
proof (induction key xs rule: drop_duplicates_subset.induct)
  case (1 key)
  then show ?case by simp
next
  case (2 key x xs)
  show ?case
  proof
    show "key ` set (drop_duplicates_subset key (x # xs)) \<subseteq> key ` set (x # xs)"
      using drop_duplicates_subset_subset [of key "x # xs"] by blast
    show "key ` set (x # xs) \<subseteq> key ` set (drop_duplicates_subset key (x # xs))"
      using 2 by auto
  qed
qed

lemma drop_duplicates_subset_distinct:
  "distinct (map key (drop_duplicates_subset key xs))"
proof (induction key xs rule: drop_duplicates_subset.induct)
  case (1 key)
  then show ?case by simp
next
  case (2 key x xs)
  have "key x \<notin> key ` set (drop_duplicates_subset key (filter (\<lambda>y. key y \<noteq> key x) xs))"
    using drop_duplicates_subset_subset [of key "filter (\<lambda>y. key y \<noteq> key x) xs"] by auto
  with 2 show ?case by simp
qed

lemma set_drop_duplicates: "set (drop_duplicates xs) = set xs"
  using drop_duplicates_subset_keys [of "\<lambda>x. x" xs] by (simp add: drop_duplicates_def)

lemma distinct_drop_duplicates: "distinct (drop_duplicates xs)"
  using drop_duplicates_subset_distinct [of "\<lambda>x. x" xs] by (simp add: drop_duplicates_def)





















subsection \<open>Facts about the identifier pattern\<close>




















subsection \<open>Facts about the mapping scripts\<close>

lemma all_ids_seed:
  "all_ids inp = {py_strip (astype_str c) | c n. (c, n) \<in> set (PHASE4 inp)}"
proof -
  have "all_ids inp = fst ` set (df_drugs inp)"
    by (force simp: all_ids_def)
  also have "\<dots> = fst ` set [(py_strip (astype_str c), n). (c, n) \<leftarrow> PHASE4 inp]"
    by (simp add: df_drugs_def drop_duplicates_subset_keys)
  also have "\<dots> = {py_strip (astype_str c) | c n. (c, n) \<in> set (PHASE4 inp)}"
    by force
  finally show ?thesis .
qed

lemma mapped_ids_join:
  "mapped_ids inp = {c \<in> all_ids inp. \<exists>d. (c, d) \<in> set (df_map inp)}"
proof -
  let ?j = "[(c, n, d). (c, n) \<leftarrow> df_drugs inp, (c', d) \<leftarrow> df_map inp, c' = c]"
  let ?k = "\<lambda>(c, n, d). (c, d)"
  have "mapped_ids inp = fst ` set (merged inp)"
    by (force simp: mapped_ids_def)
  also have "\<dots> = fst ` (?k ` set (merged inp))"
    by force
  also have "\<dots> = fst ` (?k ` set ?j)"
    by (simp only: merged_def drop_duplicates_subset_keys)
  also have "\<dots> = {c \<in> all_ids inp. \<exists>d. (c, d) \<in> set (df_map inp)}"
    by (force simp: all_ids_def)
  finally show ?thesis .
qed

lemma finite_all_ids: "finite (all_ids inp)"
  by (simp add: all_ids_def)

lemma mapping_step_cases:
  "mapping_step wanted row mapping =
     (if \<exists>u v. row = [u, ''GeneID'', v] \<and> u \<in> wanted
      then mapping @ [(hd row, row ! 2)] else mapping)"
proof (cases row)
  case Nil
  then show ?thesis by (simp add: mapping_step_def)
next
  case (Cons a r1)
  then show ?thesis
  proof (cases r1)
    case Nil
    with Cons show ?thesis by (simp add: mapping_step_def)
  next
    case (Cons b r2)
    note c2 = this
    then show ?thesis
    proof (cases r2)
      case Nil
      with c2 \<open>row = a # r1\<close> show ?thesis by (simp add: mapping_step_def)
    next
      case (Cons c r3)
      with c2 \<open>row = a # r1\<close> show ?thesis
        by (cases r3) (auto simp: mapping_step_def)
    qed
  qed
qed

lemma fold_mapping_step:
  "fold (mapping_step wanted) rows acc =
     acc @ [(hd row, row ! 2). row \<leftarrow> rows, \<exists>u v. row = [u, ''GeneID'', v] \<and> u \<in> wanted]"
  by (induction rows arbitrary: acc) (simp_all add: mapping_step_cases)

subsection \<open>Edge orientation\<close>

text \<open>
  Claim C1. For every record of the gene-disease \<open>associates\<close> relation whose direction is
  \<open>both\<close> or \<open>forward\<close>, exchanging the source and the target endpoint does not change what the
  loop appends; and for a Gene and a Disease endpoint, in either order, what it appends to
  \<open>E_GENE_DISEASE\<close> is the row (\<open>entrez_id\<close> = the gene's identifier, \<open>doid\<close> = the disease's
  identifier, \<open>evidence\<close>).
\<close>

theorem associates_swap_invariant:
  assumes "ekind e = ''associates''" and "direc e \<in> {''both'', ''forward''}"
  shows "edge_step (swap_endpoints e) L = edge_step e L
       \<and> (src_kind e = ''Gene'' \<and> tgt_kind e = ''Disease'' \<longrightarrow>
            edge_step e L =
              L\<lparr>E_GENE_DISEASE := E_GENE_DISEASE L @ [(py_str (src_id e), py_str (tgt_id e), ev e)]\<rparr>
          \<and> edge_step (swap_endpoints e) L =
              L\<lparr>E_GENE_DISEASE := E_GENE_DISEASE L @ [(py_str (src_id e), py_str (tgt_id e), ev e)]\<rparr>)"
  using assms by (auto simp: edge_step_def swap_endpoints_fields)

theorem associates_swap_invariant_witness:
  "edge_step (swap_endpoints
       \<lparr>kind = Some ''associates'', direction = Some ''both'',
        source_id = (JStr ''Gene'', JInt 7157), target_id = (JStr ''Disease'', JStr ''D1''),
        data = JNull\<rparr>) no_edges
   = edge_step
       \<lparr>kind = Some ''associates'', direction = Some ''both'',
        source_id = (JStr ''Gene'', JInt 7157), target_id = (JStr ''Disease'', JStr ''D1''),
        data = JNull\<rparr> no_edges
   \<and> edge_step (swap_endpoints
       \<lparr>kind = Some ''associates'', direction = Some ''both'',
        source_id = (JStr ''Gene'', JInt 7157), target_id = (JStr ''Disease'', JStr ''D1''),
        data = JNull\<rparr>) no_edges
   = no_edges\<lparr>E_GENE_DISEASE := [(''7157'', ''D1'', [])]\<rparr>"
proof -
  let ?e = "\<lparr>kind = Some ''associates'', direction = Some ''both'',
        source_id = (JStr ''Gene'', JInt 7157), target_id = (JStr ''Disease'', JStr ''D1''),
        data = JNull\<rparr>"
  have k: "ekind ?e = ''associates''" by (simp add: edge_eval)
  have d: "direc ?e \<in> {''both'', ''forward''}" by (simp add: edge_eval)
  have s: "src_kind ?e = ''Gene'' \<and> tgt_kind ?e = ''Disease''" by (simp add: edge_eval)
  have r: "(py_str (src_id ?e), py_str (tgt_id ?e), ev ?e) = (''7157'', ''D1'', [])"
    by (simp add: edge_eval digits_eval evidence_string_def)
  have n: "E_GENE_DISEASE no_edges = []" by (simp add: no_edges_def)
  from associates_swap_invariant [OF k d, of no_edges] s
  have "edge_step (swap_endpoints ?e) no_edges = edge_step ?e no_edges
      \<and> edge_step (swap_endpoints ?e) no_edges = no_edges\<lparr>E_GENE_DISEASE :=
          E_GENE_DISEASE no_edges @ [(py_str (src_id ?e), py_str (tgt_id ?e), ev ?e)]\<rparr>"
    by blast
  then show ?thesis
    unfolding r n append_Nil .
qed




text \<open>
  Claim C3. A \<open>binds\<close> record whose direction is \<open>reverse\<close> adds nothing to any of the four
  lists, whatever its endpoint kinds are, and the loop's result is the one it has without the
  record.
\<close>

theorem binds_reverse_dropped:
  assumes "ekind e = ''binds''" and "direc e = ''reverse''"
  shows "edge_step e L = L \<and> edge_loop (es1 @ e # es2) = edge_loop (es1 @ es2)"
proof -
  have "edge_step e L' = L'" for L'
    using assms by (simp add: edge_step_def)
  then show ?thesis
    by (simp add: edge_loop_skip)
qed

theorem binds_reverse_dropped_witness:
  "edge_step \<lparr>kind = Some ''binds'', direction = Some ''reverse'',
        source_id = (JStr ''Compound'', JStr ''DB1''), target_id = (JStr ''Gene'', JInt 1),
        data = JNull\<rparr> no_edges = no_edges
   \<and> edge_loop [\<lparr>kind = Some ''binds'', direction = Some ''reverse'',
        source_id = (JStr ''Compound'', JStr ''DB1''), target_id = (JStr ''Gene'', JInt 1),
        data = JNull\<rparr>] = edge_loop []"
proof -
  let ?e = "\<lparr>kind = Some ''binds'', direction = Some ''reverse'',
        source_id = (JStr ''Compound'', JStr ''DB1''), target_id = (JStr ''Gene'', JInt 1),
        data = JNull\<rparr>"
  have k: "ekind ?e = ''binds''" and d: "direc ?e = ''reverse''"
    by (simp_all add: edge_eval)
  from binds_reverse_dropped [OF k d, of no_edges "[]" "[]"] show ?thesis
    by simp
qed

subsection \<open>Evidence extraction\<close>

text \<open>
  Claim C7. The branches of \<open>evidence_string\<close> are tried in a fixed order and the first one
  that applies gives the whole result: the payload \<open>{"sources": ["b","a"]}\<close> gives \<open>a;b\<close>,
  \<open>{"pmids": [1,2,3]}\<close> gives \<open>pmids:3\<close>, the empty and the absent payload give the empty
  text; a string-valued \<open>source\<close> is the result whatever else the payload holds; without it a
  \<open>sources\<close> list is the result, sorted and joined, whatever else the payload holds; and
  \<open>pmids\<close> is counted only when neither is there.
\<close>

theorem evidence_string_first_branch_wins:
  "evidence_string (JDict [(''sources'', JList [JStr ''b'', JStr ''a''])]) = ''a;b''
   \<and> evidence_string (JDict [(''pmids'', JList [JInt 1, JInt 2, JInt 3])]) = ''pmids:3''
   \<and> evidence_string (JDict []) = []
   \<and> evidence_string JNull = []
   \<and> (\<forall>kvs s. map_of kvs ''source'' = Some (JStr s) \<longrightarrow> evidence_string (JDict kvs) = s)
   \<and> (\<forall>kvs xs. (\<forall>s. map_of kvs ''source'' \<noteq> Some (JStr s))
          \<and> map_of kvs ''sources'' = Some (JList xs) \<longrightarrow>
        evidence_string (JDict kvs) = join '';'' (sort (map py_str xs)))
   \<and> (\<forall>kvs p n. (\<forall>s. map_of kvs ''source'' \<noteq> Some (JStr s))
          \<and> map_of kvs ''sources'' = None
          \<and> map_of kvs ''pmids'' = Some p \<and> py_len p = Some n \<longrightarrow>
        evidence_string (JDict kvs) = ''pmids:'' @ digits_of_nat n)"
proof (intro conjI allI impI)
  show "evidence_string (JDict [(''sources'', JList [JStr ''b'', JStr ''a''])]) = ''a;b''"
    by (simp add: evidence_string_def py_str_def)
  show "evidence_string (JDict [(''pmids'', JList [JInt 1, JInt 2, JInt 3])]) = ''pmids:3''"
    by (simp add: evidence_string_def digits_eval)
  show "evidence_string (JDict []) = []" and "evidence_string JNull = []"
    by (simp_all add: evidence_string_def)
next
  fix kvs s
  assume "map_of kvs ''source'' = Some (JStr s)"
  then show "evidence_string (JDict kvs) = s"
    by (auto simp: evidence_string_def)
next
  fix kvs xs
  assume "(\<forall>s. map_of kvs ''source'' \<noteq> Some (JStr s))
      \<and> map_of kvs ''sources'' = Some (JList xs)"
  then show "evidence_string (JDict kvs) = join '';'' (sort (map py_str xs))"
    by (auto simp: evidence_string_def split: option.splits json.splits)
next
  fix kvs p n
  assume "(\<forall>s. map_of kvs ''source'' \<noteq> Some (JStr s)) \<and> map_of kvs ''sources'' = None
      \<and> map_of kvs ''pmids'' = Some p \<and> py_len p = Some n"
  then show "evidence_string (JDict kvs) = ''pmids:'' @ digits_of_nat n"
    by (auto simp: evidence_string_def split: option.splits json.splits)
qed

theorem evidence_string_first_branch_wins_witness:
  "evidence_string (JDict [(''pmids'', JList [JInt 1]), (''sources'', JList [JStr ''b'', JStr ''a'']),
       (''source'', JStr ''DrugBank'')]) = ''DrugBank''
   \<and> evidence_string (JDict [(''pmids'', JList [JInt 1]), (''source'', JInt 5),
       (''sources'', JList [JStr ''b'', JStr ''a''])]) = ''a;b''
   \<and> evidence_string (JDict [(''unbiased'', JBool False), (''pmids'', JList [JInt 1, JInt 2])])
       = ''pmids:2''"
proof -
  let ?k1 = "[(''pmids'', JList [JInt 1]), (''sources'', JList [JStr ''b'', JStr ''a'']),
       (''source'', JStr ''DrugBank'')]"
  let ?k2 = "[(''pmids'', JList [JInt 1]), (''source'', JInt 5),
       (''sources'', JList [JStr ''b'', JStr ''a''])]"
  let ?k3 = "[(''unbiased'', JBool False), (''pmids'', JList [JInt 1, JInt 2])]"
  have h1: "map_of ?k1 ''source'' = Some (JStr ''DrugBank'')" by simp
  have h2: "(\<forall>s. map_of ?k2 ''source'' \<noteq> Some (JStr s))
      \<and> map_of ?k2 ''sources'' = Some (JList [JStr ''b'', JStr ''a''])" by simp
  have h3: "(\<forall>s. map_of ?k3 ''source'' \<noteq> Some (JStr s)) \<and> map_of ?k3 ''sources'' = None
      \<and> map_of ?k3 ''pmids'' = Some (JList [JInt 1, JInt 2])
      \<and> py_len (JList [JInt 1, JInt 2]) = Some 2" by simp
  have s2: "join '';'' (sort (map py_str [JStr ''b'', JStr ''a''])) = ''a;b''"
    by (simp add: py_str_def)
  have s3: "''pmids:'' @ digits_of_nat 2 = ''pmids:2''"
    by (simp add: digits_eval)
  from evidence_string_first_branch_wins h1
  have 1: "evidence_string (JDict ?k1) = ''DrugBank''" by blast
  from evidence_string_first_branch_wins h2
  have "evidence_string (JDict ?k2) = join '';'' (sort (map py_str [JStr ''b'', JStr ''a'']))"
    by blast
  then have 2: "evidence_string (JDict ?k2) = ''a;b''" unfolding s2 .
  from evidence_string_first_branch_wins h3
  have "evidence_string (JDict ?k3) = ''pmids:'' @ digits_of_nat 2" by blast
  then have 3: "evidence_string (JDict ?k3) = ''pmids:2''" unfolding s3 .
  from 1 2 3 show ?thesis by blast
qed

subsection \<open>Name resolution\<close>

lemmas chembl_eval =
  drugs_def drop_duplicates_def q_drugs_def tmp_syn_def q_syn_def syn_clause_def name_expr_def
  where_phase_def sql_eq_def sql_min_def







subsection \<open>Deduplication of the outputs\<close>

lemma distinct_subset_rows: "distinct (drop_duplicates_subset key xs)"
  using drop_duplicates_subset_distinct [of key xs] by (simp add: distinct_map)

lemma chembl_nodes_and_edges_distinct:
  assumes "chembl_main a db = Inr (ds, es, ts)"
  shows "distinct ds \<and> distinct es"
  using assms
  by (auto simp: chembl_main_def drugs_def distinct_drop_duplicates Let_def split: sum.splits)

lemma edge_csvs_distinct:
  assumes "edge_csvs edges = (t1, t2, t3, t4)"
  shows "distinct t1 \<and> distinct t2 \<and> distinct t3 \<and> distinct t4"
  using assms by (auto simp: edge_csvs_def Let_def distinct_drop_duplicates)

lemma unichem_outputs_distinct:
  assumes "unichem_main inp = Inr (resolved, residual)"
  shows "distinct resolved \<and> distinct residual"
  using assms
  by (auto simp: unichem_main_def merged_def missing_ids_def distinct_subset_rows split: if_splits)

text \<open>
  Claim C9. The written tables are meant to hold no row twice, and the drug nodes, the
  drug-target edges, the Hetionet edges and the mapping tables are deduplicated as their last
  step. The target node table is not: its missing names are filled with the empty text after
  the last deduplication, so a protein that belongs to a target without a name and to a target
  whose name is the empty text is written twice with the same row.
\<close>

theorem chembl_targets_duplicate_rows:
  "chembl_main sample_args two_targets_db
     = Inr ([(Some ''CHEMBL25'', Some ''ASPIRIN'')],
            [(Some ''CHEMBL25'', Some ''P23219'', Some ''Cyclooxygenase inhibitor'', Some ''INHIBITOR'')],
            [(Some ''P23219'', []), (Some ''P23219'', [])])
   \<and> \<not> distinct [(Some ''P23219'', []), (Some ''P23219'', [])]"
  by (simp add: chembl_main_def dm_td_join_def dm_md_join_def sample_args_def two_targets_db_def
      chembl_eval q_edges_def targets_def uniprot_def q_target_names_def merge_left_def
      fillna_target_name_def)

subsection \<open>Residual of the ChEMBL to DrugBank mapping\<close>

lemmas unichem_eval =
  unichem_main_def merged_def missing_ids_def all_ids_def mapped_ids_def df_drugs_def df_map_def
  astype_str_def py_strip_def py_isspace_def

lemma unichem_main_sample:
  "unichem_main sample_unichem
     = Inr ([(''CHEMBL25'', Some ''ASPIRIN'', ''DB00945'')], [''CHEMBL1'', ''CHEMBL2''])"
  by (simp add: sample_unichem_def unichem_eval)

text \<open>
  Claim C5. The unmapped list holds exactly the seed ids (the stripped \<open>chembl_id\<close> values of
  the drug table) that are not in the left column of the resolved mapping; no id is in both;
  every id of the resolved mapping is a seed id; an id is unmapped exactly when the mapping
  table has no row for it; and the list is sorted and has no id twice.
\<close>

theorem residual_is_seed_minus_mapped:
  assumes "unichem_main inp = Inr (resolved, residual)"
  shows "set residual = all_ids inp - {c. \<exists>n d. (c, n, d) \<in> set resolved}
       \<and> set residual \<inter> {c. \<exists>n d. (c, n, d) \<in> set resolved} = {}
       \<and> {c. \<exists>n d. (c, n, d) \<in> set resolved} \<subseteq> all_ids inp
       \<and> all_ids inp = {py_strip (astype_str c) | c n. (c, n) \<in> set (PHASE4 inp)}
       \<and> set residual = {c \<in> all_ids inp. \<forall>d. (c, d) \<notin> set (df_map inp)}
       \<and> sorted residual \<and> distinct residual"
proof -
  from assms have r: "resolved = merged inp" "residual = missing_ids inp"
    by (auto simp: unichem_main_def split: if_splits)
  have left: "{c. \<exists>n d. (c, n, d) \<in> set resolved} = mapped_ids inp"
    unfolding r mapped_ids_def by force
  have fin: "finite (all_ids inp - mapped_ids inp)"
    using finite_all_ids by simp
  have res: "set residual = all_ids inp - mapped_ids inp"
    unfolding r missing_ids_def using fin by simp
  have "sorted residual" "distinct residual"
    unfolding r missing_ids_def by simp_all
  moreover have "set residual = {c \<in> all_ids inp. \<forall>d. (c, d) \<notin> set (df_map inp)}"
    unfolding res mapped_ids_join by blast
  moreover have "mapped_ids inp \<subseteq> all_ids inp"
    unfolding mapped_ids_join by blast
  ultimately show ?thesis
    unfolding left using res all_ids_seed by blast
qed

theorem residual_is_seed_minus_mapped_witness:
  "unichem_main sample_unichem
     = Inr ([(''CHEMBL25'', Some ''ASPIRIN'', ''DB00945'')], [''CHEMBL1'', ''CHEMBL2''])
   \<and> set [''CHEMBL1'', ''CHEMBL2'']
       = all_ids sample_unichem
           - {c. \<exists>n d. (c, n, d) \<in> set [(''CHEMBL25'', Some ''ASPIRIN'', ''DB00945'')]}
   \<and> set [''CHEMBL1'', ''CHEMBL2'']
        \<inter> {c. \<exists>n d. (c, n, d) \<in> set [(''CHEMBL25'', Some ''ASPIRIN'', ''DB00945'')]} = {}"
proof -
  note T = residual_is_seed_minus_mapped [OF unichem_main_sample]
  show ?thesis
    using unichem_main_sample T [THEN conjunct1] T [THEN conjunct2, THEN conjunct1]
    by (intro conjI)
qed

subsection \<open>STITCH identifiers\<close>




subsection \<open>UniProt to Entrez rows\<close>

lemma mapping_rows_set:
  "((u, v) \<in> set [(hd row, row ! 2). row \<leftarrow> rows, \<exists>u v. row = [u, ''GeneID'', v] \<and> u \<in> W])
     = (u \<in> W \<and> [u, ''GeneID'', v] \<in> set rows)"
  by (induction rows) auto

lemma mapping_rows_filter:
  "[(hd row, row ! 2). row \<leftarrow> rows, \<exists>u v. row = [u, ''GeneID'', v] \<and> u \<in> W]
      = [(hd row, row ! 2). row \<leftarrow> [row \<leftarrow> rows. length row = 3 \<and> row ! 1 = ''GeneID''],
           \<exists>u v. row = [u, ''GeneID'', v] \<and> u \<in> W]"
  by (induction rows) auto

lemma target_uniprots_set: "target_uniprots col = {py_strip x | x. Some x \<in> set col}"
  unfolding target_uniprots_def by (induction col) (auto split: option.splits)

text \<open>
  Claim C10. A row (\<open>uniprot\<close>, \<open>entrez_id\<close>) is in the written mapping exactly when its
  \<open>uniprot\<close> is in the stripped id set of the target node table and the input has the
  three-field line (\<open>uniprot\<close>, \<open>GeneID\<close>, \<open>entrez_id\<close>); that id set holds the stripped
  non-missing cells of the \<open>uniprot\<close> column; the lines of another length or another mapping
  type can be removed from the input without changing the result; and no row is written twice.
\<close>

theorem uniprot_to_entrez_rows:
  "((u, v) \<in> set (uniprot_main col rows)
        \<longleftrightarrow> u \<in> target_uniprots col \<and> [u, ''GeneID'', v] \<in> set rows)
   \<and> target_uniprots col = {py_strip x | x. Some x \<in> set col}
   \<and> uniprot_main col rows
        = uniprot_main col [row \<leftarrow> rows. length row = 3 \<and> row ! 1 = ''GeneID'']
   \<and> distinct (uniprot_main col rows)"
proof (intro conjI)
  show "(u, v) \<in> set (uniprot_main col rows)
        \<longleftrightarrow> u \<in> target_uniprots col \<and> [u, ''GeneID'', v] \<in> set rows"
    unfolding uniprot_main_def set_drop_duplicates fold_mapping_step append_Nil
    by (rule mapping_rows_set)
  show "target_uniprots col = {py_strip x | x. Some x \<in> set col}"
    by (rule target_uniprots_set)
  show "uniprot_main col rows
        = uniprot_main col [row \<leftarrow> rows. length row = 3 \<and> row ! 1 = ''GeneID'']"
    unfolding uniprot_main_def fold_mapping_step append_Nil
    by (subst mapping_rows_filter) (rule refl)
  show "distinct (uniprot_main col rows)"
    unfolding uniprot_main_def by (rule distinct_drop_duplicates)
qed

theorem uniprot_to_entrez_rows_witness:
  "(''P23219'', ''5742'')
     \<in> set (uniprot_main [Some '' P23219 '', None]
          [[''P23219'', ''GeneID'', ''5742''], [''P23219'', ''GI'', ''1''], [''P23219'', ''GeneID'']])"
proof -
  have m: "''P23219'' \<in> target_uniprots [Some '' P23219 '', None]"
    by (simp add: target_uniprots_def py_strip_def py_isspace_def)
  have l: "[''P23219'', ''GeneID'', ''5742'']
      \<in> set [[''P23219'', ''GeneID'', ''5742''], [''P23219'', ''GI'', ''1''], [''P23219'', ''GeneID'']]"
    by simp
  from m l have "''P23219'' \<in> target_uniprots [Some '' P23219 '', None]
      \<and> [''P23219'', ''GeneID'', ''5742'']
        \<in> set [[''P23219'', ''GeneID'', ''5742''], [''P23219'', ''GI'', ''1''], [''P23219'', ''GeneID'']]"
    by (rule conjI)
  then show ?thesis
    by (rule uniprot_to_entrez_rows [THEN conjunct1, THEN iffD2])
qed

end
